theory Spec2Isabelle
  imports Complex_Main
begin

section \<open>JavaScript values and built-ins used by the route handlers\<close>

text \<open>
  A field of a request body is absent (\<open>undefined\<close>) or a JSON value: \<open>null\<close>, a boolean, a
  number or a string; arrays and objects are left out where a handler reads a scalar.
  \<open>JNum n\<close> is a number whose value is the integer \<open>n\<close>. The handlers do integer arithmetic
  only, and on the integers below \<open>2 ^ 53\<close> in magnitude that arithmetic is exact in
  JavaScript and a number prints as its decimal digits; the model is about those. A
  number that results from \<open>parseInt\<close> or from arithmetic is an \<open>int option\<close>, with \<open>None\<close>
  for NaN. Strings are ASCII strings.
\<close>

datatype jsval = JUndefined | JNull | JBool bool | JNum int | JStr string

type_synonym jsnum = "int option"

definition isWhiteSpace :: "char \<Rightarrow> bool" where
  "isWhiteSpace c =
     (c = CHR '' '' \<or> c = CHR 0x09 \<or> c = CHR 0x0A \<or> c = CHR 0x0B \<or> c = CHR 0x0C \<or> c = CHR 0x0D)"

definition digitValue :: "char \<Rightarrow> nat option" where
  "digitValue c =
     (let n = (of_char c :: nat) in
      if 48 \<le> n \<and> n \<le> 57 then Some (n - 48)
      else if 97 \<le> n \<and> n \<le> 122 then Some (n - 87)
      else if 65 \<le> n \<and> n \<le> 90 then Some (n - 55)
      else None)"

definition radixDigit :: "nat \<Rightarrow> char \<Rightarrow> bool" where
  "radixDigit R c = (case digitValue c of None \<Rightarrow> False | Some d \<Rightarrow> d < R)"

definition mathInt :: "nat \<Rightarrow> string \<Rightarrow> nat" where
  "mathInt R Z =
     foldl (\<lambda>acc c. case digitValue c of None \<Rightarrow> acc | Some d \<Rightarrow> acc * R + d) 0 Z"

text \<open>
  \<open>parseInt(string)\<close> with no radix argument: leading white space is skipped, one sign is
  read, a \<open>0x\<close>/\<open>0X\<close> prefix selects radix 16, and the longest run of digits of the radix is
  the value; no digit at all gives NaN.
\<close>

definition parseInt_string :: "string \<Rightarrow> jsnum" where
  "parseInt_string inputString =
     (let S = dropWhile isWhiteSpace inputString;
          sign = (if take 1 S = ''-'' then - 1 else (1 :: int));
          S1 = (if take 1 S = ''+'' \<or> take 1 S = ''-'' then drop 1 S else S);
          hex = (take 2 S1 = ''0x'' \<or> take 2 S1 = ''0X'');
          R = (if hex then 16 else 10);
          S2 = (if hex then drop 2 S1 else S1);
          Z = takeWhile (radixDigit R) S2
      in if Z = [] then None else Some (sign * int (mathInt R Z)))"

text \<open>
  \<open>parseInt\<close> of any value first converts it to a string. An integer number prints as its
  decimal digits and parses back to itself; \<open>undefined\<close>, \<open>null\<close> and booleans print as
  words without a leading digit.
\<close>

fun parseInt :: "jsval \<Rightarrow> jsnum" where
  "parseInt (JStr s) = parseInt_string s"
| "parseInt (JNum n) = Some n"
| "parseInt JUndefined = None"
| "parseInt JNull = None"
| "parseInt (JBool b) = None"

definition js_add :: "jsnum \<Rightarrow> jsnum \<Rightarrow> jsnum" where
  "js_add a b = (case (a, b) of (Some x, Some y) \<Rightarrow> Some (x + y) | _ \<Rightarrow> None)"

definition js_sub :: "jsnum \<Rightarrow> jsnum \<Rightarrow> jsnum" where
  "js_sub a b = (case (a, b) of (Some x, Some y) \<Rightarrow> Some (x - y) | _ \<Rightarrow> None)"

definition js_mul :: "jsnum \<Rightarrow> jsnum \<Rightarrow> jsnum" where
  "js_mul a b = (case (a, b) of (Some x, Some y) \<Rightarrow> Some (x * y) | _ \<Rightarrow> None)"

definition Math_max :: "jsnum \<Rightarrow> jsnum \<Rightarrow> jsnum" where
  "Math_max a b = (case (a, b) of (Some x, Some y) \<Rightarrow> Some (max x y) | _ \<Rightarrow> None)"

text \<open>\<open>String.prototype.trim\<close> and \<open>toUpperCase\<close> on ASCII strings.\<close>

definition trim :: "string \<Rightarrow> string" where
  "trim s = rev (dropWhile isWhiteSpace (rev (dropWhile isWhiteSpace s)))"

definition upperChar :: "char \<Rightarrow> char" where
  "upperChar c =
     (let n = (of_char c :: nat) in if 97 \<le> n \<and> n \<le> 122 then char_of (n - 32) else c)"

definition toUpperCase :: "string \<Rightarrow> string" where
  "toUpperCase s = map upperChar s"

text \<open>Truthiness of an optional string: absent and the empty string are falsy.\<close>

definition truthy :: "string option \<Rightarrow> bool" where
  "truthy v = (case v of None \<Rightarrow> False | Some s \<Rightarrow> s \<noteq> [])"

section \<open>Errors and responses\<close>

text \<open>
  A thrown error carries an optional \<open>code\<close> (the store client sets \<open>P2002\<close> on a unique
  constraint violation, \<open>P2025\<close> on a missing record) and a message.
\<close>

record js_error =
  err_code :: "string option"
  err_message :: string

record pagination =
  pg_page :: jsnum
  pg_limit :: jsnum
  pg_total :: nat
  pg_pages :: jsnum

text \<open>
  A response is the HTTP status and the JSON body; a body field that the handler does not
  write is \<open>None\<close>.
\<close>

record 'd response =
  r_status :: nat
  r_success :: "bool option"
  r_error :: "string option"
  r_message :: "string option"
  r_data :: "'d option"
  r_pagination :: "pagination option"

definition fail_response :: "nat \<Rightarrow> string \<Rightarrow> 'd response" where
  "fail_response st e =
     \<lparr>r_status = st, r_success = Some False, r_error = Some e, r_message = None,
      r_data = None, r_pagination = None\<rparr>"

definition catch_response :: "string \<Rightarrow> js_error \<Rightarrow> 'd response" where
  "catch_response e err =
     \<lparr>r_status = 500, r_success = Some False, r_error = Some e,
      r_message = Some (err_message err), r_data = None, r_pagination = None\<rparr>"

definition ok_response :: "nat \<Rightarrow> 'd option \<Rightarrow> string option \<Rightarrow> 'd response" where
  "ok_response st d m =
     \<lparr>r_status = st, r_success = Some True, r_error = None, r_message = m,
      r_data = d, r_pagination = None\<rparr>"

text \<open>
  The catch block of a route handler: a handler that creates or updates rows answers a
  unique-constraint violation with 400 and its own text; every other error is answered
  with 500, the handler's label and the message of the error.
\<close>

definition route_catch :: "string option \<Rightarrow> string \<Rightarrow> js_error \<Rightarrow> 'd response" where
  "route_catch conflict label e =
     (case conflict of
        None \<Rightarrow> catch_response label e
      | Some m \<Rightarrow> if err_code e = Some ''P2002'' then fail_response 400 m
                  else catch_response label e)"

section \<open>The store\<close>

record product =
  p_id :: string
  p_name :: string
  p_description :: "string option"
  p_sku :: string
  p_price :: rat
  p_quantityInStock :: int
  p_inStock :: bool
  p_brandId :: "string option"
  p_productTypeId :: "string option"

record variant =
  v_id :: string
  v_variantName :: string
  v_fullVariantName :: string
  v_sku :: string
  v_stock :: int
  v_productId :: string
  v_colorId :: "string option"
  v_styleId :: "string option"

record color =
  c_id :: string
  c_name :: string
  c_hexCode :: "string option"

record style =
  s_id :: string
  s_name :: string
  s_fitType :: string

record brand =
  b_id :: string
  b_name :: string
  b_logo :: "string option"

record collection =
  col_id :: string
  col_name :: string
  col_description :: "string option"

record productCollection =
  pc_productId :: string
  pc_collectionId :: string

record variantCollection =
  vc_variantId :: string
  vc_collectionId :: string

record store =
  products :: "product list"
  variants :: "variant list"
  colors :: "color list"
  styles :: "style list"
  brands :: "brand list"
  collections :: "collection list"
  productCollections :: "productCollection list"
  variantCollections :: "variantCollection list"

text \<open>
  The store client rejects a query argument that is not a number of the column's type
  (NaN here) with a validation error, which has no \<open>code\<close>.
\<close>

definition validation_error :: js_error where
  "validation_error = \<lparr>err_code = None, err_message = ''Invalid value provided''\<rparr>"

definition unique_error :: js_error where
  "unique_error = \<lparr>err_code = Some ''P2002'', err_message = ''Unique constraint failed''\<rparr>"

definition foreign_key_error :: js_error where
  "foreign_key_error =
     \<lparr>err_code = Some ''P2003'', err_message = ''Foreign key constraint failed''\<rparr>"

section \<open>PATCH /variants/:id/stock\<close>

text \<open>
  The body holds \<open>stock\<close> and \<open>operation\<close>; an absent \<open>operation\<close> defaults to \<open>set\<close>. The
  handler answers 400 when \<open>stock\<close> is absent, then looks the variant up and answers 404
  when there is none, then computes the new stock in a \<open>switch\<close> on the operation
  (\<open>newStock_of\<close>) and writes it. The store rejects a stock that is NaN; the error is
  answered by the catch block.
\<close>

record stock_body =
  sb_stock :: jsval
  sb_operation :: jsval

definition productVariant_findUnique :: "store \<Rightarrow> string \<Rightarrow> variant option" where
  "productVariant_findUnique st i = find (\<lambda>v. v_id v = i) (variants st)"

definition productVariant_update_stock ::
  "store \<Rightarrow> string \<Rightarrow> jsnum \<Rightarrow> js_error + (variant option \<times> store)" where
  "productVariant_update_stock st i newStock =
     (case newStock of
        None \<Rightarrow> Inl validation_error
      | Some n \<Rightarrow>
          (let st' = st\<lparr>variants :=
                 map (\<lambda>v. if v_id v = i then v\<lparr>v_stock := n\<rparr> else v) (variants st)\<rparr>
           in Inr (productVariant_findUnique st' i, st')))"

definition newStock_of :: "jsval \<Rightarrow> int \<Rightarrow> jsval \<Rightarrow> jsnum" where
  "newStock_of operation existing stock =
     (if operation = JStr ''add'' then js_add (Some existing) (parseInt stock)
      else if operation = JStr ''subtract''
           then Math_max (Some 0) (js_sub (Some existing) (parseInt stock))
      else parseInt stock)"

definition patch_variant_stock ::
  "store \<Rightarrow> string \<Rightarrow> stock_body \<Rightarrow> variant response \<times> store" where
  "patch_variant_stock st i body =
     (let stock = sb_stock body;
          operation = (if sb_operation body = JUndefined then JStr ''set'' else sb_operation body)
      in if stock = JUndefined then (fail_response 400 ''Stock value is required'', st)
         else case productVariant_findUnique st i of
                None \<Rightarrow> (fail_response 404 ''Variant not found'', st)
              | Some existingVariant \<Rightarrow>
                  (case productVariant_update_stock st i
                          (newStock_of operation (v_stock existingVariant) stock) of
                     Inl e \<Rightarrow> (route_catch None ''Failed to update variant stock'' e, st)
                   | Inr (v, st') \<Rightarrow>
                       (ok_response 200 v (Some ''Variant stock updated successfully''), st')))"

section \<open>DELETE of a color, style, brand or collection\<close>

text \<open>
  Each handler reads the row together with the count of the rows that refer to it,
  answers 404 when there is no row, 400 when the count is positive, and deletes otherwise.
\<close>

definition color_count_variants :: "store \<Rightarrow> string \<Rightarrow> nat" where
  "color_count_variants st i = length (filter (\<lambda>v. v_colorId v = Some i) (variants st))"

definition style_count_variants :: "store \<Rightarrow> string \<Rightarrow> nat" where
  "style_count_variants st i = length (filter (\<lambda>v. v_styleId v = Some i) (variants st))"

definition brand_count_products :: "store \<Rightarrow> string \<Rightarrow> nat" where
  "brand_count_products st i = length (filter (\<lambda>p. p_brandId p = Some i) (products st))"

definition collection_count_products :: "store \<Rightarrow> string \<Rightarrow> nat" where
  "collection_count_products st i =
     length (filter (\<lambda>r. pc_collectionId r = i) (productCollections st))"

definition collection_count_variants :: "store \<Rightarrow> string \<Rightarrow> nat" where
  "collection_count_variants st i =
     length (filter (\<lambda>r. vc_collectionId r = i) (variantCollections st))"

definition delete_color :: "store \<Rightarrow> string \<Rightarrow> unit response \<times> store" where
  "delete_color st i =
     (case find (\<lambda>c. c_id c = i) (colors st) of
        None \<Rightarrow> (fail_response 404 ''Color not found'', st)
      | Some existingColor \<Rightarrow>
          if color_count_variants st i > 0
          then (fail_response 400 ''Cannot delete color that is used by product variants'', st)
          else (ok_response 200 None (Some ''Color deleted successfully''),
                st\<lparr>colors := filter (\<lambda>c. c_id c \<noteq> i) (colors st)\<rparr>))"

definition delete_style :: "store \<Rightarrow> string \<Rightarrow> unit response \<times> store" where
  "delete_style st i =
     (case find (\<lambda>s. s_id s = i) (styles st) of
        None \<Rightarrow> (fail_response 404 ''Style not found'', st)
      | Some existingStyle \<Rightarrow>
          if style_count_variants st i > 0
          then (fail_response 400 ''Cannot delete style that is used by product variants'', st)
          else (ok_response 200 None (Some ''Style deleted successfully''),
                st\<lparr>styles := filter (\<lambda>s. s_id s \<noteq> i) (styles st)\<rparr>))"

definition delete_brand :: "store \<Rightarrow> string \<Rightarrow> unit response \<times> store" where
  "delete_brand st i =
     (case find (\<lambda>b. b_id b = i) (brands st) of
        None \<Rightarrow> (fail_response 404 ''Brand not found'', st)
      | Some existingBrand \<Rightarrow>
          if brand_count_products st i > 0
          then (fail_response 400 ''Cannot delete brand that has products'', st)
          else (ok_response 200 None (Some ''Brand deleted successfully''),
                st\<lparr>brands := filter (\<lambda>b. b_id b \<noteq> i) (brands st)\<rparr>))"

definition delete_collection :: "store \<Rightarrow> string \<Rightarrow> unit response \<times> store" where
  "delete_collection st i =
     (case find (\<lambda>c. col_id c = i) (collections st) of
        None \<Rightarrow> (fail_response 404 ''Collection not found'', st)
      | Some existingCollection \<Rightarrow>
          if collection_count_products st i > 0 \<or> collection_count_variants st i > 0
          then (fail_response 400
                  ''Cannot delete collection that contains products or variants'', st)
          else (ok_response 200 None (Some ''Collection deleted successfully''),
                st\<lparr>collections := filter (\<lambda>c. col_id c \<noteq> i) (collections st)\<rparr>))"

section \<open>List endpoints\<close>

text \<open>
  A query parameter is a string or absent; the destructuring default applies to an absent
  parameter only.
\<close>

definition query_default :: "int \<Rightarrow> string option \<Rightarrow> jsval" where
  "query_default d v = (case v of None \<Rightarrow> JNum d | Some s \<Rightarrow> JStr s)"

text \<open>
  \<open>Math.ceil(total / limit)\<close>. The division is the real one. A NaN limit gives NaN and a
  zero limit gives an infinity or NaN; none of them is a number that JSON can write, and
  all are \<open>None\<close> here.
\<close>

definition Math_ceil_div :: "nat \<Rightarrow> jsnum \<Rightarrow> jsnum" where
  "Math_ceil_div cnt limit =
     (case limit of
        None \<Rightarrow> None
      | Some l \<Rightarrow> if l = 0 then None else Some \<lceil>(of_nat cnt :: rat) / of_int l\<rceil>)"

text \<open>
  The store's \<open>findMany\<close> with \<open>where\<close>, \<open>orderBy\<close>, \<open>skip\<close> and \<open>take\<close>: the matching rows
  are ordered, \<open>skip\<close> rows are passed over and \<open>take\<close> rows are returned; a negative
  \<open>take\<close> counts from the end of the ordered rows. A NaN argument and a negative \<open>skip\<close>
  are rejected. \<open>count\<close> is the number of matching rows. The ordering of rows that the
  store applies for an \<open>orderBy\<close> is an argument of the handlers: for the fixed ordering
  by name a function on the rows, and for a field and direction taken from the query a
  function that gives the ordering or \<open>None\<close> when the store rejects the two.
\<close>

definition window :: "int \<Rightarrow> int \<Rightarrow> 'r list \<Rightarrow> 'r list" where
  "window skip tk rows =
     (if 0 \<le> tk then take (nat tk) (drop (nat skip) rows)
      else rev (take (nat (- tk)) (drop (nat skip) (rev rows))))"

definition findMany ::
  "('r \<Rightarrow> bool) \<Rightarrow> ('r list \<Rightarrow> 'r list) \<Rightarrow> jsnum \<Rightarrow> jsnum \<Rightarrow> 'r list \<Rightarrow> js_error + 'r list" where
  "findMany matches ordered skip tk table =
     (case (skip, tk) of
        (Some s, Some t) \<Rightarrow>
          if s < 0 then Inl validation_error
          else Inr (window s t (ordered (filter matches table)))
      | _ \<Rightarrow> Inl validation_error)"

definition count_rows :: "('r \<Rightarrow> bool) \<Rightarrow> 'r list \<Rightarrow> nat" where
  "count_rows matches table = length (filter matches table)"

definition list_result ::
  "string \<Rightarrow> js_error + 'r list \<Rightarrow> nat \<Rightarrow> jsnum \<Rightarrow> jsnum \<Rightarrow> 'r list response" where
  "list_result label found cnt page limit =
     (case found of
        Inl e \<Rightarrow> route_catch None label e
      | Inr rows \<Rightarrow>
          \<lparr>r_status = 200, r_success = Some True, r_error = None, r_message = None,
           r_data = Some rows,
           r_pagination = Some \<lparr>pg_page = page, pg_limit = limit, pg_total = cnt,
                                 pg_pages = Math_ceil_div cnt limit\<rparr>\<rparr>)"

text \<open>Case-insensitive substring match, the store's \<open>contains\<close> with mode \<open>insensitive\<close>.\<close>

fun str_contains :: "string \<Rightarrow> string \<Rightarrow> bool" where
  "str_contains [] needle = (needle = [])"
| "str_contains (h # hs) needle =
     (take (length needle) (h # hs) = needle \<or> str_contains hs needle)"

definition contains_insensitive :: "string \<Rightarrow> string \<Rightarrow> bool" where
  "contains_insensitive hay needle = str_contains (toUpperCase hay) (toUpperCase needle)"

datatype int_filter = Gt int | Lte int

fun int_filter_holds :: "int_filter \<Rightarrow> int \<Rightarrow> bool" where
  "int_filter_holds (Gt n) x = (n < x)"
| "int_filter_holds (Lte n) x = (x \<le> n)"

definition eq_filter :: "string option \<Rightarrow> string option \<Rightarrow> bool" where
  "eq_filter w x = (case w of None \<Rightarrow> True | Some i \<Rightarrow> x = Some i)"

subsection \<open>GET /variants\<close>

record variant_query =
  vq_page :: "string option"
  vq_limit :: "string option"
  vq_search :: "string option"
  vq_productId :: "string option"
  vq_colorId :: "string option"
  vq_styleId :: "string option"
  vq_inStock :: "string option"
  vq_sortBy :: "string option"
  vq_sortOrder :: "string option"

record variant_where =
  vw_OR :: "((variant \<Rightarrow> string) \<times> string) list option"
  vw_productId :: "string option"
  vw_colorId :: "string option"
  vw_styleId :: "string option"
  vw_stock :: "int_filter option"

definition variants_where :: "variant_query \<Rightarrow> variant_where" where
  "variants_where q =
     \<lparr>vw_OR = (if truthy (vq_search q)
               then Some [(v_variantName, the (vq_search q)),
                          (v_fullVariantName, the (vq_search q)),
                          (v_sku, the (vq_search q))]
               else None),
      vw_productId = (if truthy (vq_productId q) then vq_productId q else None),
      vw_colorId = (if truthy (vq_colorId q) then vq_colorId q else None),
      vw_styleId = (if truthy (vq_styleId q) then vq_styleId q else None),
      vw_stock = (case vq_inStock q of
                    None \<Rightarrow> None
                  | Some inStock \<Rightarrow> Some (if inStock = ''true'' then Gt 0 else Lte 0))\<rparr>"

definition variant_matches :: "variant_where \<Rightarrow> variant \<Rightarrow> bool" where
  "variant_matches w v =
     ((case vw_OR w of
         None \<Rightarrow> True
       | Some clauses \<Rightarrow> \<exists>(field, s) \<in> set clauses. contains_insensitive (field v) s) \<and>
      (case vw_productId w of None \<Rightarrow> True | Some i \<Rightarrow> v_productId v = i) \<and>
      eq_filter (vw_colorId w) (v_colorId v) \<and>
      eq_filter (vw_styleId w) (v_styleId v) \<and>
      (case vw_stock w of None \<Rightarrow> True | Some f \<Rightarrow> int_filter_holds f (v_stock v)))"

definition get_variants ::
  "(string \<Rightarrow> string \<Rightarrow> (variant list \<Rightarrow> variant list) option) \<Rightarrow> store \<Rightarrow> variant_query
     \<Rightarrow> variant list response" where
  "get_variants orderBy st q =
     (let page = query_default 1 (vq_page q);
          limit = query_default 20 (vq_limit q);
          sortBy = (case vq_sortBy q of None \<Rightarrow> ''createdAt'' | Some f \<Rightarrow> f);
          sortOrder = (case vq_sortOrder q of None \<Rightarrow> ''desc'' | Some d \<Rightarrow> d);
          skip = js_mul (js_sub (parseInt page) (Some 1)) (parseInt limit);
          wh = variants_where q
      in list_result ''Failed to fetch variants''
           (case orderBy sortBy sortOrder of
              None \<Rightarrow> Inl validation_error
            | Some ordered \<Rightarrow>
                findMany (variant_matches wh) ordered skip (parseInt limit) (variants st))
           (count_rows (variant_matches wh) (variants st))
           (parseInt page) (parseInt limit))"

subsection \<open>GET /products\<close>

record product_query =
  pq_page :: "string option"
  pq_limit :: "string option"
  pq_search :: "string option"
  pq_brandId :: "string option"
  pq_productTypeId :: "string option"
  pq_inStock :: "string option"
  pq_minPrice :: "string option"
  pq_maxPrice :: "string option"
  pq_sortBy :: "string option"
  pq_sortOrder :: "string option"

text \<open>
  A price bound is the result of \<open>parseFloat\<close>: a number, or \<open>None\<close> for NaN. The price
  filter holds the bounds that were set.
\<close>

record price_filter =
  pf_gte :: "rat option option"
  pf_lte :: "rat option option"

record product_where =
  pw_OR :: "((product \<Rightarrow> string option) \<times> string) list option"
  pw_brandId :: "string option"
  pw_productTypeId :: "string option"
  pw_inStock :: "bool option"
  pw_price :: "price_filter option"

text \<open>
  \<open>parseFloat\<close> reads a floating-point number and is a parameter of the filter builder.
\<close>

definition products_where :: "(string \<Rightarrow> rat option) \<Rightarrow> product_query \<Rightarrow> product_where" where
  "products_where parseFloat q =
     \<lparr>pw_OR = (if truthy (pq_search q)
               then Some [(\<lambda>p. Some (p_name p), the (pq_search q)),
                          (p_description, the (pq_search q)),
                          (\<lambda>p. Some (p_sku p), the (pq_search q))]
               else None),
      pw_brandId = (if truthy (pq_brandId q) then pq_brandId q else None),
      pw_productTypeId = (if truthy (pq_productTypeId q) then pq_productTypeId q else None),
      pw_inStock = (case pq_inStock q of
                      None \<Rightarrow> None
                    | Some inStock \<Rightarrow> Some (inStock = ''true'')),
      pw_price = (if truthy (pq_minPrice q) \<or> truthy (pq_maxPrice q)
                  then Some \<lparr>pf_gte = (if truthy (pq_minPrice q)
                                        then Some (parseFloat (the (pq_minPrice q))) else None),
                             pf_lte = (if truthy (pq_maxPrice q)
                                        then Some (parseFloat (the (pq_maxPrice q))) else None)\<rparr>
                  else None)\<rparr>"

definition product_where_valid :: "product_where \<Rightarrow> bool" where
  "product_where_valid w =
     (case pw_price w of
        None \<Rightarrow> True
      | Some f \<Rightarrow> pf_gte f \<noteq> Some None \<and> pf_lte f \<noteq> Some None)"

definition price_matches :: "price_filter \<Rightarrow> rat \<Rightarrow> bool" where
  "price_matches f x =
     ((case pf_gte f of Some (Some g) \<Rightarrow> g \<le> x | _ \<Rightarrow> True) \<and>
      (case pf_lte f of Some (Some l) \<Rightarrow> x \<le> l | _ \<Rightarrow> True))"

definition product_matches :: "product_where \<Rightarrow> product \<Rightarrow> bool" where
  "product_matches w p =
     ((case pw_OR w of
         None \<Rightarrow> True
       | Some clauses \<Rightarrow>
           \<exists>(field, s) \<in> set clauses.
              (case field p of None \<Rightarrow> False | Some text \<Rightarrow> contains_insensitive text s)) \<and>
      eq_filter (pw_brandId w) (p_brandId p) \<and>
      eq_filter (pw_productTypeId w) (p_productTypeId p) \<and>
      (case pw_inStock w of None \<Rightarrow> True | Some b \<Rightarrow> p_inStock p = b) \<and>
      (case pw_price w of None \<Rightarrow> True | Some f \<Rightarrow> price_matches f (p_price p)))"

definition get_products ::
  "(string \<Rightarrow> rat option) \<Rightarrow> (string \<Rightarrow> string \<Rightarrow> (product list \<Rightarrow> product list) option)
     \<Rightarrow> store \<Rightarrow> product_query \<Rightarrow> product list response" where
  "get_products parseFloat orderBy st q =
     (let page = query_default 1 (pq_page q);
          limit = query_default 20 (pq_limit q);
          sortBy = (case pq_sortBy q of None \<Rightarrow> ''createdAt'' | Some f \<Rightarrow> f);
          sortOrder = (case pq_sortOrder q of None \<Rightarrow> ''desc'' | Some d \<Rightarrow> d);
          skip = js_mul (js_sub (parseInt page) (Some 1)) (parseInt limit);
          wh = products_where parseFloat q
      in list_result ''Failed to fetch products''
           (case orderBy sortBy sortOrder of
              None \<Rightarrow> Inl validation_error
            | Some ordered \<Rightarrow>
                if product_where_valid wh
                then findMany (product_matches wh) ordered skip (parseInt limit) (products st)
                else Inl validation_error)
           (count_rows (product_matches wh) (products st))
           (parseInt page) (parseInt limit))"

subsection \<open>GET /colors, /styles, /collections, /brands\<close>

record basic_query =
  bq_page :: "string option"
  bq_limit :: "string option"
  bq_search :: "string option"

record style_query = basic_query +
  sq_fitType :: "string option"

definition name_where :: "string option \<Rightarrow> string option" where
  "name_where search = (if truthy search then search else None)"

definition name_matches :: "string option \<Rightarrow> string \<Rightarrow> bool" where
  "name_matches w name = (case w of None \<Rightarrow> True | Some s \<Rightarrow> contains_insensitive name s)"

definition get_colors ::
  "(color list \<Rightarrow> color list) \<Rightarrow> store \<Rightarrow> basic_query \<Rightarrow> color list response" where
  "get_colors orderByName st q =
     (let page = query_default 1 (bq_page q);
          limit = query_default 50 (bq_limit q);
          skip = js_mul (js_sub (parseInt page) (Some 1)) (parseInt limit);
          wh = name_where (bq_search q)
      in list_result ''Failed to fetch colors''
           (findMany (\<lambda>c. name_matches wh (c_name c)) orderByName skip
              (parseInt limit) (colors st))
           (count_rows (\<lambda>c. name_matches wh (c_name c)) (colors st))
           (parseInt page) (parseInt limit))"

definition get_brands ::
  "(brand list \<Rightarrow> brand list) \<Rightarrow> store \<Rightarrow> basic_query \<Rightarrow> brand list response" where
  "get_brands orderByName st q =
     (let page = query_default 1 (bq_page q);
          limit = query_default 50 (bq_limit q);
          skip = js_mul (js_sub (parseInt page) (Some 1)) (parseInt limit);
          wh = name_where (bq_search q)
      in list_result ''Failed to fetch brands''
           (findMany (\<lambda>b. name_matches wh (b_name b)) orderByName skip
              (parseInt limit) (brands st))
           (count_rows (\<lambda>b. name_matches wh (b_name b)) (brands st))
           (parseInt page) (parseInt limit))"

definition collection_matches :: "string option \<Rightarrow> collection \<Rightarrow> bool" where
  "collection_matches w c =
     (case w of
        None \<Rightarrow> True
      | Some s \<Rightarrow>
          contains_insensitive (col_name c) s \<or>
          (case col_description c of None \<Rightarrow> False | Some d \<Rightarrow> contains_insensitive d s))"

definition get_collections ::
  "(collection list \<Rightarrow> collection list) \<Rightarrow> store \<Rightarrow> basic_query \<Rightarrow> collection list response" where
  "get_collections orderByName st q =
     (let page = query_default 1 (bq_page q);
          limit = query_default 50 (bq_limit q);
          skip = js_mul (js_sub (parseInt page) (Some 1)) (parseInt limit);
          wh = name_where (bq_search q)
      in list_result ''Failed to fetch collections''
           (findMany (collection_matches wh) orderByName skip
              (parseInt limit) (collections st))
           (count_rows (collection_matches wh) (collections st))
           (parseInt page) (parseInt limit))"

definition validFitTypes :: "string list" where
  "validFitTypes = [''SKINNY'', ''RELAXED'', ''OVERSIZED'', ''CLASSIC'']"

definition style_matches :: "string option \<Rightarrow> string option \<Rightarrow> style \<Rightarrow> bool" where
  "style_matches w_name w_fitType s =
     (name_matches w_name (s_name s) \<and>
      (case w_fitType of None \<Rightarrow> True | Some f \<Rightarrow> s_fitType s = f))"

text \<open>
  Modelled from the spec: the database schema is not among the sources. The spec has the
  fit type of a style as an enumeration of four values; the store rejects a filter on
  the fit type with any other value.
\<close>

definition fitType_filter_valid :: "string option \<Rightarrow> bool" where
  "fitType_filter_valid w = (case w of None \<Rightarrow> True | Some f \<Rightarrow> f \<in> set validFitTypes)"

definition get_styles ::
  "(style list \<Rightarrow> style list) \<Rightarrow> store \<Rightarrow> style_query \<Rightarrow> style list response" where
  "get_styles orderByName st q =
     (let page = query_default 1 (bq_page q);
          limit = query_default 50 (bq_limit q);
          skip = js_mul (js_sub (parseInt page) (Some 1)) (parseInt limit);
          w_name = name_where (bq_search q);
          w_fitType = (if truthy (sq_fitType q) then map_option toUpperCase (sq_fitType q)
                       else None)
      in list_result ''Failed to fetch styles''
           (if fitType_filter_valid w_fitType
            then findMany (style_matches w_name w_fitType) orderByName skip
                   (parseInt limit) (styles st)
            else Inl validation_error)
           (count_rows (style_matches w_name w_fitType) (styles st))
           (parseInt page) (parseInt limit))"

section \<open>PUT /variants/:id and PUT /products/:id\<close>














section \<open>POST /styles\<close>

record style_body =
  stb_name :: "string option"
  stb_fitType :: "string option"

text \<open>
  Modelled from the spec: the database schema is not among the sources. The spec has the
  name of a style unique, and \<open>create\<close> failing when a uniqueness constraint collides:
  creating a second style of the same name raises the unique-constraint error, which the
  handler's catch block answers. The store creates a row under the identifier it
  generates, here the argument \<open>new_id\<close>.
\<close>

definition style_create :: "store \<Rightarrow> string \<Rightarrow> string \<Rightarrow> string \<Rightarrow> js_error + (style \<times> store)" where
  "style_create st new_id name fitType =
     (if \<exists>s \<in> set (styles st). s_name s = name then Inl unique_error
      else (let s = \<lparr>s_id = new_id, s_name = name, s_fitType = fitType\<rparr>
            in Inr (s, st\<lparr>styles := styles st @ [s]\<rparr>)))"

definition post_style :: "store \<Rightarrow> string \<Rightarrow> style_body \<Rightarrow> style response \<times> store" where
  "post_style st new_id body =
     (if \<not> truthy (stb_name body) then (fail_response 400 ''Style name is required'', st)
      else if \<not> truthy (stb_fitType body) then (fail_response 400 ''Fit type is required'', st)
      else if toUpperCase (the (stb_fitType body)) \<notin> set validFitTypes
      then (fail_response 400
              ''Invalid fit type. Must be one of: SKINNY, RELAXED, OVERSIZED, CLASSIC'', st)
      else case style_create st new_id (trim (the (stb_name body)))
                  (toUpperCase (the (stb_fitType body))) of
             Inl e \<Rightarrow>
               (route_catch (Some ''Style name already exists'') ''Failed to create style'' e,
                st)
           | Inr (s, st') \<Rightarrow>
               (ok_response 201 (Some s) (Some ''Style created successfully''), st'))"

section \<open>POST /styles/bulk and POST /colors/bulk\<close>











section \<open>The handlers of the application: unmatched routes and uncaught errors\<close>



section \<open>The catch blocks of the routes\<close>



section \<open>Observations and example data\<close>

text \<open>
  The outcome of a stock mutation as a client sees it: the status of the response and the
  stock of the variant in the store afterwards.
\<close>

definition stock_outcome :: "variant response \<times> store \<Rightarrow> string \<Rightarrow> nat \<times> int option" where
  "stock_outcome res i =
     (r_status (fst res), map_option v_stock (productVariant_findUnique (snd res) i))"

definition variant0 :: variant where
  "variant0 =
     \<lparr>v_id = ''v1'', v_variantName = ''Red - M'', v_fullVariantName = ''Tee - Red - M'',
      v_sku = ''T-R-M'', v_stock = 3, v_productId = ''p1'', v_colorId = Some ''c1'',
      v_styleId = None\<rparr>"

definition store0 :: store where
  "store0 =
     \<lparr>products = [], variants = [variant0], colors = [], styles = [], brands = [],
      collections = [], productCollections = [], variantCollections = []\<rparr>"

definition store1 :: store where
  "store1 =
     \<lparr>products = [\<lparr>p_id = ''p1'', p_name = ''Tee'', p_description = None, p_sku = ''T'',
                   p_price = 30, p_quantityInStock = 5, p_inStock = False,
                   p_brandId = Some ''b1'', p_productTypeId = None\<rparr>],
      variants = [variant0\<lparr>v_styleId := Some ''s1''\<rparr>],
      colors = [\<lparr>c_id = ''c1'', c_name = ''Red'', c_hexCode = None\<rparr>,
                \<lparr>c_id = ''c2'', c_name = ''Teal'', c_hexCode = None\<rparr>],
      styles = [\<lparr>s_id = ''s1'', s_name = ''Slim'', s_fitType = ''SKINNY''\<rparr>,
                \<lparr>s_id = ''s2'', s_name = ''Boxy'', s_fitType = ''OVERSIZED''\<rparr>],
      brands = [\<lparr>b_id = ''b1'', b_name = ''Nike'', b_logo = None\<rparr>,
                \<lparr>b_id = ''b2'', b_name = ''Zara'', b_logo = None\<rparr>],
      collections = [\<lparr>col_id = ''k1'', col_name = ''Summer'', col_description = None\<rparr>,
                     \<lparr>col_id = ''k2'', col_name = ''Winter'', col_description = None\<rparr>],
      productCollections = [\<lparr>pc_productId = ''p1'', pc_collectionId = ''k1''\<rparr>],
      variantCollections = []\<rparr>"

text \<open>
  What a list response must be for page \<open>p\<close> of size \<open>l\<close>, given the matching rows and
  the same rows in the requested order: the items are the \<open>l\<close> rows after the first
  \<open>(p - 1) * l\<close>, at most \<open>l\<close> of them, and the pagination block holds the page, the
  limit, the number of matching rows and the number of pages, which is the ceiling of
  total over limit, that is the least number of pages of size \<open>l\<close> that hold all rows.
\<close>

definition is_page :: "int \<Rightarrow> int \<Rightarrow> 'r list \<Rightarrow> 'r list \<Rightarrow> 'r list response \<Rightarrow> bool" where
  "is_page p l matching ordered r =
     (r_status r = 200 \<and> r_success r = Some True \<and>
      r_data r = Some (take (nat l) (drop (nat ((p - 1) * l)) ordered)) \<and>
      (case r_data r of None \<Rightarrow> False | Some items \<Rightarrow> length items \<le> nat l) \<and>
      (case r_pagination r of
         None \<Rightarrow> False
       | Some pg \<Rightarrow>
           pg_page pg = Some p \<and> pg_limit pg = Some l \<and> pg_total pg = length matching \<and>
           (case pg_pages pg of
              None \<Rightarrow> False
            | Some k \<Rightarrow>
                k = \<lceil>(of_nat (length matching) :: rat) / of_int l\<rceil> \<and>
                int (length matching) \<le> k * l \<and> (k - 1) * l < int (length matching))))"

definition query0 :: basic_query where
  "query0 = \<lparr>bq_page = Some ''2'', bq_limit = Some ''1'', bq_search = None\<rparr>"

definition style_query0 :: style_query where
  "style_query0 =
     \<lparr>bq_page = Some ''2'', bq_limit = Some ''1'', bq_search = None, sq_fitType = None\<rparr>"

definition product_query0 :: product_query where
  "product_query0 =
     \<lparr>pq_page = Some ''2'', pq_limit = Some ''1'', pq_search = None, pq_brandId = None,
      pq_productTypeId = None, pq_inStock = None, pq_minPrice = None, pq_maxPrice = None,
      pq_sortBy = None, pq_sortOrder = None\<rparr>"

definition variant_query0 :: variant_query where
  "variant_query0 =
     \<lparr>vq_page = Some ''2'', vq_limit = Some ''1'', vq_search = None, vq_productId = None,
      vq_colorId = None, vq_styleId = None, vq_inStock = None, vq_sortBy = None,
      vq_sortOrder = None\<rparr>"

definition page_view :: "'r list response \<Rightarrow> nat \<times> 'r list option \<times> jsnum option" where
  "page_view r = (r_status r, r_data r, map_option pg_pages (r_pagination r))"

definition parseFloat0 :: "string \<Rightarrow> rat option" where
  "parseFloat0 s = None"

definition orderByName0 :: "'r list \<Rightarrow> 'r list" where
  "orderByName0 rows = rows"

definition orderBy0 :: "string \<Rightarrow> string \<Rightarrow> ('r list \<Rightarrow> 'r list) option" where
  "orderBy0 field direction = Some orderByName0"

definition product0 :: product where
  "product0 =
     \<lparr>p_id = ''p1'', p_name = ''Tee'', p_description = None, p_sku = ''T'', p_price = 30,
      p_quantityInStock = 5, p_inStock = False, p_brandId = Some ''b1'',
      p_productTypeId = None\<rparr>"

definition product_query_inStock :: "string \<Rightarrow> product_query" where
  "product_query_inStock s =
     \<lparr>pq_page = None, pq_limit = None, pq_search = None, pq_brandId = None,
      pq_productTypeId = None, pq_inStock = Some s, pq_minPrice = None, pq_maxPrice = None,
      pq_sortBy = None, pq_sortOrder = None\<rparr>"

definition variant_query_inStock :: "string \<Rightarrow> variant_query" where
  "variant_query_inStock s =
     \<lparr>vq_page = None, vq_limit = None, vq_search = None, vq_productId = None,
      vq_colorId = None, vq_styleId = None, vq_inStock = Some s, vq_sortBy = None,
      vq_sortOrder = None\<rparr>"












definition style_body0 :: "string \<Rightarrow> string \<Rightarrow> style_body" where
  "style_body0 name fitType = \<lparr>stb_name = Some name, stb_fitType = Some fitType\<rparr>"






section \<open>Properties of the stock mutation\<close>

lemma find_map_stock:
  "find (\<lambda>v. v_id v = i) (map (\<lambda>v. if v_id v = i then v\<lparr>v_stock := n\<rparr> else v) xs)
     = map_option (\<lambda>v. v\<lparr>v_stock := n\<rparr>) (find (\<lambda>v. v_id v = i) xs)"
  by (induction xs) auto

lemma patch_ok:
  assumes "productVariant_findUnique st i = Some ev" "stock \<noteq> JUndefined"
    "newStock_of (if op = JUndefined then JStr ''set'' else op) (v_stock ev) stock = Some m"
  shows "patch_variant_stock st i \<lparr>sb_stock = stock, sb_operation = op\<rparr> =
     (ok_response 200 (Some (ev\<lparr>v_stock := m\<rparr>)) (Some ''Variant stock updated successfully''),
      st\<lparr>variants := map (\<lambda>v. if v_id v = i then v\<lparr>v_stock := m\<rparr> else v) (variants st)\<rparr>)"
  using assms
  by (cases "op = JUndefined")
     (simp_all add: patch_variant_stock_def productVariant_update_stock_def Let_def
      productVariant_findUnique_def find_map_stock)

lemma patch_outcome:
  assumes "productVariant_findUnique st i = Some ev" "stock \<noteq> JUndefined"
    "newStock_of (if op = JUndefined then JStr ''set'' else op) (v_stock ev) stock = Some m"
  shows "stock_outcome (patch_variant_stock st i \<lparr>sb_stock = stock, sb_operation = op\<rparr>) i
           = (200, Some m)"
  using assms(1)
  by (simp add: patch_ok[OF assms] stock_outcome_def ok_response_def
      productVariant_findUnique_def find_map_stock)



lemma parse7: "parseInt_string ''7'' = Some 7"
  by (simp add: parseInt_string_def isWhiteSpace_def radixDigit_def digitValue_def
      mathInt_def Let_def)

text \<open>
  Claim C10. An operation other than the strings \<open>add\<close> and \<open>subtract\<close>, such as
  \<open>increment\<close> or \<open>ADD\<close>, is handled as \<open>set\<close>: the handler answers and changes the
  store as it does for \<open>set\<close>, the new stock is \<open>parseInt\<close> of the input, and for an
  existing variant and an integer input the stock becomes the input.
\<close>

theorem stock_operation_fallthrough:
  "op \<noteq> JStr ''add'' \<and> op \<noteq> JStr ''subtract'' \<longrightarrow>
     patch_variant_stock st i \<lparr>sb_stock = stock, sb_operation = op\<rparr>
       = patch_variant_stock st i \<lparr>sb_stock = stock, sb_operation = JStr ''set''\<rparr> \<and>
     newStock_of op existing stock = parseInt stock \<and>
     (productVariant_findUnique st i = Some ev \<and> parseInt stock = Some n \<longrightarrow>
        stock_outcome (patch_variant_stock st i \<lparr>sb_stock = stock, sb_operation = op\<rparr>) i
          = (200, Some n))"
proof (intro impI conjI)
  assume h: "op \<noteq> JStr ''add'' \<and> op \<noteq> JStr ''subtract''"
  then show eq: "patch_variant_stock st i \<lparr>sb_stock = stock, sb_operation = op\<rparr>
       = patch_variant_stock st i \<lparr>sb_stock = stock, sb_operation = JStr ''set''\<rparr>"
    by (simp add: patch_variant_stock_def newStock_of_def Let_def split: option.splits)
  from h show "newStock_of op existing stock = parseInt stock"
    by (simp add: newStock_of_def)
  assume g: "productVariant_findUnique st i = Some ev \<and> parseInt stock = Some n"
  then have d: "stock \<noteq> JUndefined" by auto
  from g have f: "productVariant_findUnique st i = Some ev" by simp
  show "stock_outcome (patch_variant_stock st i \<lparr>sb_stock = stock, sb_operation = op\<rparr>) i
          = (200, Some n)"
    using h g by (intro patch_outcome[OF f d]) (simp add: newStock_of_def)
qed

theorem stock_operation_fallthrough_witness:
  "stock_outcome (patch_variant_stock store0 ''v1''
       \<lparr>sb_stock = JStr ''7'', sb_operation = JStr ''increment''\<rparr>) ''v1'' = (200, Some 7) \<and>
   stock_outcome (patch_variant_stock store0 ''v1''
       \<lparr>sb_stock = JStr ''7'', sb_operation = JStr ''ADD''\<rparr>) ''v1'' = (200, Some 7)"
proof -
  have f: "productVariant_findUnique store0 ''v1'' = Some variant0 \<and>
           parseInt (JStr ''7'') = Some 7"
    by (simp add: store0_def variant0_def productVariant_findUnique_def parse7)
  have a: "JStr ''increment'' \<noteq> JStr ''add'' \<and> JStr ''increment'' \<noteq> JStr ''subtract''"
    and b: "JStr ''ADD'' \<noteq> JStr ''add'' \<and> JStr ''ADD'' \<noteq> JStr ''subtract''"
    by simp_all
  show ?thesis
    using stock_operation_fallthrough[of "JStr ''increment''" store0 "''v1''" "JStr ''7''" 3
        variant0 7]
      stock_operation_fallthrough[of "JStr ''ADD''" store0 "''v1''" "JStr ''7''" 3 variant0 7]
      f a b
    by blast
qed

section \<open>Properties of the delete guards\<close>

lemma count_pos_iff: "0 < length (filter P xs) \<longleftrightarrow> (\<exists>x \<in> set xs. P x)"
  by (simp add: filter_empty_conv)

lemma find_None_image: "find (\<lambda>x. f x = i) xs = None \<longleftrightarrow> i \<notin> f ` set xs"
  by (auto simp: find_None_iff)

text \<open>
  Claim C2. Deleting a color or style that a variant refers to, a brand that a product
  refers to, or a collection that a product or variant join row refers to, is answered
  with 400 and leaves the store unchanged. With no such reference the delete is answered
  with 200 and the store afterwards is the old one without the row of that id. An id
  without a row is answered with 404, the store unchanged.
\<close>

theorem delete_guards:
  "(i \<notin> c_id ` set (colors st) \<longrightarrow>
      delete_color st i = (fail_response 404 ''Color not found'', st)) \<and>
   (i \<in> c_id ` set (colors st) \<and> (\<exists>v \<in> set (variants st). v_colorId v = Some i) \<longrightarrow>
      delete_color st i = (fail_response 400 ''Cannot delete color that is used by product variants'', st)) \<and>
   (i \<in> c_id ` set (colors st) \<and> \<not> (\<exists>v \<in> set (variants st). v_colorId v = Some i) \<longrightarrow>
      r_status (fst (delete_color st i)) = 200 \<and>
      snd (delete_color st i) = st\<lparr>colors := filter (\<lambda>x. c_id x \<noteq> i) (colors st)\<rparr> \<and>
      i \<notin> c_id ` set (colors (snd (delete_color st i)))) \<and>
   (i \<notin> s_id ` set (styles st) \<longrightarrow>
      delete_style st i = (fail_response 404 ''Style not found'', st)) \<and>
   (i \<in> s_id ` set (styles st) \<and> (\<exists>v \<in> set (variants st). v_styleId v = Some i) \<longrightarrow>
      delete_style st i = (fail_response 400 ''Cannot delete style that is used by product variants'', st)) \<and>
   (i \<in> s_id ` set (styles st) \<and> \<not> (\<exists>v \<in> set (variants st). v_styleId v = Some i) \<longrightarrow>
      r_status (fst (delete_style st i)) = 200 \<and>
      snd (delete_style st i) = st\<lparr>styles := filter (\<lambda>x. s_id x \<noteq> i) (styles st)\<rparr> \<and>
      i \<notin> s_id ` set (styles (snd (delete_style st i)))) \<and>
   (i \<notin> b_id ` set (brands st) \<longrightarrow>
      delete_brand st i = (fail_response 404 ''Brand not found'', st)) \<and>
   (i \<in> b_id ` set (brands st) \<and> (\<exists>p \<in> set (products st). p_brandId p = Some i) \<longrightarrow>
      delete_brand st i = (fail_response 400 ''Cannot delete brand that has products'', st)) \<and>
   (i \<in> b_id ` set (brands st) \<and> \<not> (\<exists>p \<in> set (products st). p_brandId p = Some i) \<longrightarrow>
      r_status (fst (delete_brand st i)) = 200 \<and>
      snd (delete_brand st i) = st\<lparr>brands := filter (\<lambda>x. b_id x \<noteq> i) (brands st)\<rparr> \<and>
      i \<notin> b_id ` set (brands (snd (delete_brand st i)))) \<and>
   (i \<notin> col_id ` set (collections st) \<longrightarrow>
      delete_collection st i = (fail_response 404 ''Collection not found'', st)) \<and>
   (i \<in> col_id ` set (collections st) \<and> ((\<exists>r \<in> set (productCollections st). pc_collectionId r = i) \<or>
     (\<exists>r \<in> set (variantCollections st). vc_collectionId r = i)) \<longrightarrow>
      delete_collection st i = (fail_response 400 ''Cannot delete collection that contains products or variants'', st)) \<and>
   (i \<in> col_id ` set (collections st) \<and> \<not> ((\<exists>r \<in> set (productCollections st). pc_collectionId r = i) \<or>
     (\<exists>r \<in> set (variantCollections st). vc_collectionId r = i)) \<longrightarrow>
      r_status (fst (delete_collection st i)) = 200 \<and>
      snd (delete_collection st i) = st\<lparr>collections := filter (\<lambda>x. col_id x \<noteq> i) (collections st)\<rparr> \<and>
      i \<notin> col_id ` set (collections (snd (delete_collection st i))))"
proof -
  note defs = delete_color_def delete_style_def delete_brand_def delete_collection_def
      color_count_variants_def style_count_variants_def brand_count_products_def
      collection_count_products_def collection_count_variants_def filter_empty_conv
      ok_response_def
  have h0: "(i \<notin> c_id ` set (colors st) \<longrightarrow>
      delete_color st i = (fail_response 404 ''Color not found'', st)) \<and>
   (i \<in> c_id ` set (colors st) \<and> (\<exists>v \<in> set (variants st). v_colorId v = Some i) \<longrightarrow>
      delete_color st i = (fail_response 400 ''Cannot delete color that is used by product variants'', st)) \<and>
   (i \<in> c_id ` set (colors st) \<and> \<not> (\<exists>v \<in> set (variants st). v_colorId v = Some i) \<longrightarrow>
      r_status (fst (delete_color st i)) = 200 \<and>
      snd (delete_color st i) = st\<lparr>colors := filter (\<lambda>x. c_id x \<noteq> i) (colors st)\<rparr> \<and>
      i \<notin> c_id ` set (colors (snd (delete_color st i))))"
    using find_None_image[of c_id i "colors st"]
    by (cases "find (\<lambda>x. c_id x = i) (colors st)") (auto simp: defs)
  have h1: "(i \<notin> s_id ` set (styles st) \<longrightarrow>
      delete_style st i = (fail_response 404 ''Style not found'', st)) \<and>
   (i \<in> s_id ` set (styles st) \<and> (\<exists>v \<in> set (variants st). v_styleId v = Some i) \<longrightarrow>
      delete_style st i = (fail_response 400 ''Cannot delete style that is used by product variants'', st)) \<and>
   (i \<in> s_id ` set (styles st) \<and> \<not> (\<exists>v \<in> set (variants st). v_styleId v = Some i) \<longrightarrow>
      r_status (fst (delete_style st i)) = 200 \<and>
      snd (delete_style st i) = st\<lparr>styles := filter (\<lambda>x. s_id x \<noteq> i) (styles st)\<rparr> \<and>
      i \<notin> s_id ` set (styles (snd (delete_style st i))))"
    using find_None_image[of s_id i "styles st"]
    by (cases "find (\<lambda>x. s_id x = i) (styles st)") (auto simp: defs)
  have h2: "(i \<notin> b_id ` set (brands st) \<longrightarrow>
      delete_brand st i = (fail_response 404 ''Brand not found'', st)) \<and>
   (i \<in> b_id ` set (brands st) \<and> (\<exists>p \<in> set (products st). p_brandId p = Some i) \<longrightarrow>
      delete_brand st i = (fail_response 400 ''Cannot delete brand that has products'', st)) \<and>
   (i \<in> b_id ` set (brands st) \<and> \<not> (\<exists>p \<in> set (products st). p_brandId p = Some i) \<longrightarrow>
      r_status (fst (delete_brand st i)) = 200 \<and>
      snd (delete_brand st i) = st\<lparr>brands := filter (\<lambda>x. b_id x \<noteq> i) (brands st)\<rparr> \<and>
      i \<notin> b_id ` set (brands (snd (delete_brand st i))))"
    using find_None_image[of b_id i "brands st"]
    by (cases "find (\<lambda>x. b_id x = i) (brands st)") (auto simp: defs)
  have h3: "(i \<notin> col_id ` set (collections st) \<longrightarrow>
      delete_collection st i = (fail_response 404 ''Collection not found'', st)) \<and>
   (i \<in> col_id ` set (collections st) \<and> ((\<exists>r \<in> set (productCollections st). pc_collectionId r = i) \<or>
     (\<exists>r \<in> set (variantCollections st). vc_collectionId r = i)) \<longrightarrow>
      delete_collection st i = (fail_response 400 ''Cannot delete collection that contains products or variants'', st)) \<and>
   (i \<in> col_id ` set (collections st) \<and> \<not> ((\<exists>r \<in> set (productCollections st). pc_collectionId r = i) \<or>
     (\<exists>r \<in> set (variantCollections st). vc_collectionId r = i)) \<longrightarrow>
      r_status (fst (delete_collection st i)) = 200 \<and>
      snd (delete_collection st i) = st\<lparr>collections := filter (\<lambda>x. col_id x \<noteq> i) (collections st)\<rparr> \<and>
      i \<notin> col_id ` set (collections (snd (delete_collection st i))))"
    using find_None_image[of col_id i "collections st"]
    by (cases "find (\<lambda>x. col_id x = i) (collections st)") (auto simp: defs)
  show ?thesis
    using h0 h1 h2 h3 by (elim conjE, intro conjI) assumption+
qed

theorem delete_guards_witness:
  "delete_color store1 ''c1''
     = (fail_response 400 ''Cannot delete color that is used by product variants'', store1) \<and>
   r_status (fst (delete_color store1 ''c2'')) = 200 \<and>
   ''c2'' \<notin> c_id ` set (colors (snd (delete_color store1 ''c2''))) \<and>
   delete_color store1 ''s1'' = (fail_response 404 ''Color not found'', store1) \<and>
   delete_style store1 ''s1''
     = (fail_response 400 ''Cannot delete style that is used by product variants'', store1) \<and>
   r_status (fst (delete_style store1 ''s2'')) = 200 \<and>
   delete_style store1 ''c1'' = (fail_response 404 ''Style not found'', store1) \<and>
   delete_brand store1 ''b1''
     = (fail_response 400 ''Cannot delete brand that has products'', store1) \<and>
   r_status (fst (delete_brand store1 ''b2'')) = 200 \<and>
   delete_brand store1 ''c1'' = (fail_response 404 ''Brand not found'', store1) \<and>
   delete_collection store1 ''k1''
     = (fail_response 400 ''Cannot delete collection that contains products or variants'',
        store1) \<and>
   r_status (fst (delete_collection store1 ''k2'')) = 200 \<and>
   delete_collection store1 ''c1'' = (fail_response 404 ''Collection not found'', store1)"
  using delete_guards[of "''c1''" store1] delete_guards[of "''c2''" store1]
    delete_guards[of "''s1''" store1] delete_guards[of "''s2''" store1]
    delete_guards[of "''b1''" store1] delete_guards[of "''b2''" store1]
    delete_guards[of "''k1''" store1] delete_guards[of "''k2''" store1]
  by (simp add: store1_def variant0_def)

section \<open>Properties of the list endpoints\<close>

lemma ceil_div_bounds:
  fixes l :: int and t :: nat
  assumes "1 \<le> l"
  defines "k \<equiv> \<lceil>(of_nat t :: rat) / of_int l\<rceil>"
  shows "int t \<le> k * l" and "(k - 1) * l < int t"
proof -
  have lpos: "(0::rat) < of_int l" using assms by simp
  have "(of_nat t :: rat) / of_int l \<le> of_int k" unfolding k_def by (rule le_of_int_ceiling)
  then have "(of_nat t :: rat) \<le> of_int k * of_int l"
    using lpos by (simp add: pos_divide_le_eq)
  then have "(of_int (int t) :: rat) \<le> of_int (k * l)" by simp
  then show "int t \<le> k * l" by (simp only: of_int_le_iff)
  have "of_int k - 1 < (of_nat t :: rat) / of_int l" unfolding k_def
    using ceiling_correct[of "(of_nat t :: rat) / of_int l"] by simp
  then have "(of_int k - 1) * of_int l < (of_nat t :: rat)"
    using lpos by (simp add: pos_less_divide_eq)
  then have "(of_int ((k - 1) * l) :: rat) < of_int (int t)" by simp
  then show "(k - 1) * l < int t" by (simp only: of_int_less_iff)
qed

lemma list_page:
  assumes "page = Some p" "1 \<le> p" "limit = Some l" "1 \<le> l"
  shows "is_page p l (filter m table) (ord (filter m table))
           (list_result label
              (findMany m ord (js_mul (js_sub page (Some 1)) limit) limit table)
              (count_rows m table) page limit)"
proof -
  have "0 \<le> (p - 1) * l" using assms by simp
  then have "\<not> (p - 1) * l < 0" by simp
  then show ?thesis
  using assms ceil_div_bounds[of l "length (filter m table)"]
  by (simp add: is_page_def list_result_def findMany_def js_mul_def js_sub_def window_def
      count_rows_def Math_ceil_div_def)
qed

text \<open>
  Claim C3. For each of the six list endpoints, when \<open>page\<close> and \<open>limit\<close> parse to
  integers that are at least 1 and the store accepts the query (the sort field and
  direction of a product or variant list, the price bounds of a product list and the
  fit type filter of a style list), the response is the page \<open>is_page\<close> describes: the
  query passes over exactly \<open>(page - 1) * limit\<close> of the ordered matching rows and takes
  \<open>limit\<close>, at most \<open>limit\<close> items are returned, and \<open>pages\<close> is the ceiling of
  \<open>total / limit\<close>.
\<close>

theorem list_pagination:
  "1 \<le> p \<and> 1 \<le> l \<longrightarrow>
   (parseInt (query_default 1 (pq_page pq)) = Some p \<and>
    parseInt (query_default 20 (pq_limit pq)) = Some l \<and>
    orderP (case pq_sortBy pq of None \<Rightarrow> ''createdAt'' | Some f \<Rightarrow> f)
              (case pq_sortOrder pq of None \<Rightarrow> ''desc'' | Some d \<Rightarrow> d) = Some ordP \<and>
    product_where_valid (products_where parseFloat pq) \<longrightarrow>
      is_page p l
        (filter (product_matches (products_where parseFloat pq)) (products st))
        (ordP (filter (product_matches (products_where parseFloat pq)) (products st)))
        (get_products parseFloat orderP st pq)) \<and>
   (parseInt (query_default 1 (vq_page vq)) = Some p \<and>
    parseInt (query_default 20 (vq_limit vq)) = Some l \<and>
    orderV (case vq_sortBy vq of None \<Rightarrow> ''createdAt'' | Some f \<Rightarrow> f)
              (case vq_sortOrder vq of None \<Rightarrow> ''desc'' | Some d \<Rightarrow> d) = Some ordV \<longrightarrow>
      is_page p l
        (filter (variant_matches (variants_where vq)) (variants st))
        (ordV (filter (variant_matches (variants_where vq)) (variants st)))
        (get_variants orderV st vq)) \<and>
   (parseInt (query_default 1 (bq_page cq)) = Some p \<and>
    parseInt (query_default 50 (bq_limit cq)) = Some l \<longrightarrow>
      is_page p l
        (filter (\<lambda>c. name_matches (name_where (bq_search cq)) (c_name c)) (colors st))
        (ordC (filter (\<lambda>c. name_matches (name_where (bq_search cq)) (c_name c)) (colors st)))
        (get_colors ordC st cq)) \<and>
   (parseInt (query_default 1 (bq_page sq)) = Some p \<and>
    parseInt (query_default 50 (bq_limit sq)) = Some l \<and>
    fitType_filter_valid
      (if truthy (sq_fitType sq) then map_option toUpperCase (sq_fitType sq) else None) \<longrightarrow>
      is_page p l
        (filter (style_matches (name_where (bq_search sq))
                   (if truthy (sq_fitType sq) then map_option toUpperCase (sq_fitType sq) else None))
           (styles st))
        (ordS (filter (style_matches (name_where (bq_search sq))
                         (if truthy (sq_fitType sq) then map_option toUpperCase (sq_fitType sq) else None))
                 (styles st)))
        (get_styles ordS st sq)) \<and>
   (parseInt (query_default 1 (bq_page kq)) = Some p \<and>
    parseInt (query_default 50 (bq_limit kq)) = Some l \<longrightarrow>
      is_page p l
        (filter (collection_matches (name_where (bq_search kq))) (collections st))
        (ordK (filter (collection_matches (name_where (bq_search kq))) (collections st)))
        (get_collections ordK st kq)) \<and>
   (parseInt (query_default 1 (bq_page bq)) = Some p \<and>
    parseInt (query_default 50 (bq_limit bq)) = Some l \<longrightarrow>
      is_page p l
        (filter (\<lambda>b. name_matches (name_where (bq_search bq)) (b_name b)) (brands st))
        (ordB (filter (\<lambda>b. name_matches (name_where (bq_search bq)) (b_name b)) (brands st)))
        (get_brands ordB st bq))"
proof (intro impI conjI)
  assume pl: "1 \<le> p \<and> 1 \<le> l"
  note lp = list_page[OF _ pl[THEN conjunct1] _ pl[THEN conjunct2]]
  {
    assume "parseInt (query_default 1 (pq_page pq)) = Some p \<and>
    parseInt (query_default 20 (pq_limit pq)) = Some l \<and>
    orderP (case pq_sortBy pq of None \<Rightarrow> ''createdAt'' | Some f \<Rightarrow> f)
              (case pq_sortOrder pq of None \<Rightarrow> ''desc'' | Some d \<Rightarrow> d) = Some ordP \<and>
    product_where_valid (products_where parseFloat pq)"
    then show "is_page p l
        (filter (product_matches (products_where parseFloat pq)) (products st))
        (ordP (filter (product_matches (products_where parseFloat pq)) (products st)))
        (get_products parseFloat orderP st pq)"
      by (simp add: get_products_def Let_def lp)
  }
  {
    assume "parseInt (query_default 1 (vq_page vq)) = Some p \<and>
    parseInt (query_default 20 (vq_limit vq)) = Some l \<and>
    orderV (case vq_sortBy vq of None \<Rightarrow> ''createdAt'' | Some f \<Rightarrow> f)
              (case vq_sortOrder vq of None \<Rightarrow> ''desc'' | Some d \<Rightarrow> d) = Some ordV"
    then show "is_page p l
        (filter (variant_matches (variants_where vq)) (variants st))
        (ordV (filter (variant_matches (variants_where vq)) (variants st)))
        (get_variants orderV st vq)"
      by (simp add: get_variants_def Let_def lp)
  }
  {
    assume "parseInt (query_default 1 (bq_page cq)) = Some p \<and>
    parseInt (query_default 50 (bq_limit cq)) = Some l"
    then show "is_page p l
        (filter (\<lambda>c. name_matches (name_where (bq_search cq)) (c_name c)) (colors st))
        (ordC (filter (\<lambda>c. name_matches (name_where (bq_search cq)) (c_name c)) (colors st)))
        (get_colors ordC st cq)"
      by (simp add: get_colors_def Let_def lp)
  }
  {
    assume "parseInt (query_default 1 (bq_page sq)) = Some p \<and>
    parseInt (query_default 50 (bq_limit sq)) = Some l \<and>
    fitType_filter_valid
      (if truthy (sq_fitType sq) then map_option toUpperCase (sq_fitType sq) else None)"
    then show "is_page p l
        (filter (style_matches (name_where (bq_search sq))
                   (if truthy (sq_fitType sq) then map_option toUpperCase (sq_fitType sq) else None))
           (styles st))
        (ordS (filter (style_matches (name_where (bq_search sq))
                         (if truthy (sq_fitType sq) then map_option toUpperCase (sq_fitType sq) else None))
                 (styles st)))
        (get_styles ordS st sq)"
      by (simp add: get_styles_def Let_def lp)
  }
  {
    assume "parseInt (query_default 1 (bq_page kq)) = Some p \<and>
    parseInt (query_default 50 (bq_limit kq)) = Some l"
    then show "is_page p l
        (filter (collection_matches (name_where (bq_search kq))) (collections st))
        (ordK (filter (collection_matches (name_where (bq_search kq))) (collections st)))
        (get_collections ordK st kq)"
      by (simp add: get_collections_def Let_def lp)
  }
  {
    assume "parseInt (query_default 1 (bq_page bq)) = Some p \<and>
    parseInt (query_default 50 (bq_limit bq)) = Some l"
    then show "is_page p l
        (filter (\<lambda>b. name_matches (name_where (bq_search bq)) (b_name b)) (brands st))
        (ordB (filter (\<lambda>b. name_matches (name_where (bq_search bq)) (b_name b)) (brands st)))
        (get_brands ordB st bq)"
      by (simp add: get_brands_def Let_def lp)
  }
qed

lemma parse_2_1: "parseInt_string ''2'' = Some 2" "parseInt_string ''1'' = Some 1"
  by (simp_all add: parseInt_string_def isWhiteSpace_def radixDigit_def digitValue_def
      mathInt_def Let_def)

lemma is_page_view:
  "is_page p l matching ordered r \<Longrightarrow>
     page_view r = (200, Some (take (nat l) (drop (nat ((p - 1) * l)) ordered)),
                    Some (Some \<lceil>(of_nat (length matching) :: rat) / of_int l\<rceil>))"
  by (auto simp: is_page_def page_view_def split: option.splits)

theorem list_pagination_witness:
  "page_view (get_products parseFloat0 orderBy0 store1 product_query0)
     = (200, Some [], Some (Some 1)) \<and>
   page_view (get_variants orderBy0 store1 variant_query0)
     = (200, Some [], Some (Some 1)) \<and>
   page_view (get_colors orderByName0 store1 query0)
     = (200, Some [\<lparr>c_id = ''c2'', c_name = ''Teal'', c_hexCode = None\<rparr>], Some (Some 2)) \<and>
   page_view (get_styles orderByName0 store1 style_query0)
     = (200, Some [\<lparr>s_id = ''s2'', s_name = ''Boxy'', s_fitType = ''OVERSIZED''\<rparr>],
        Some (Some 2)) \<and>
   page_view (get_collections orderByName0 store1 query0)
     = (200, Some [\<lparr>col_id = ''k2'', col_name = ''Winter'', col_description = None\<rparr>],
        Some (Some 2)) \<and>
   page_view (get_brands orderByName0 store1 query0)
     = (200, Some [\<lparr>b_id = ''b2'', b_name = ''Zara'', b_logo = None\<rparr>], Some (Some 2))"
proof -
  note L = list_pagination[where p = 2 and l = 1 and st = store1 and pq = product_query0
      and parseFloat = parseFloat0 and orderP = orderBy0 and ordP = orderByName0
      and vq = variant_query0 and orderV = orderBy0 and ordV = orderByName0
      and cq = query0 and ordC = orderByName0 and sq = style_query0 and ordS = orderByName0
      and kq = query0 and ordK = orderByName0 and bq = query0 and ordB = orderByName0]
  note ev = parse_2_1 query_default_def query0_def style_query0_def product_query0_def
      variant_query0_def products_where_def product_where_valid_def truthy_def
      store1_def variants_where_def variant_matches_def orderBy0_def orderByName0_def
      product_matches_def eq_filter_def name_where_def name_matches_def style_matches_def
      collection_matches_def fitType_filter_valid_def
  have P: "is_page 2 1 (products store1) (products store1)
             (get_products parseFloat0 orderBy0 store1 product_query0)"
    using L by (simp add: ev)
  have V: "is_page 2 1 (variants store1) (variants store1)
             (get_variants orderBy0 store1 variant_query0)"
    using L by (simp add: ev)
  have C: "is_page 2 1 (colors store1) (colors store1)
             (get_colors orderByName0 store1 query0)"
    using L by (simp add: ev)
  have S: "is_page 2 1 (styles store1) (styles store1)
             (get_styles orderByName0 store1 style_query0)"
    using L by (simp add: ev)
  have K: "is_page 2 1 (collections store1) (collections store1)
             (get_collections orderByName0 store1 query0)"
    using L by (simp add: ev)
  have B: "is_page 2 1 (brands store1) (brands store1)
             (get_brands orderByName0 store1 query0)"
    using L by (simp add: ev)
  show ?thesis
    using is_page_view[OF P] is_page_view[OF V] is_page_view[OF C] is_page_view[OF S]
      is_page_view[OF K] is_page_view[OF B]
    by (simp add: store1_def)
qed

section \<open>Properties of the stock filter\<close>

text \<open>
  Claim C7, amended. On the variant list the \<open>inStock\<close> parameter adds a predicate on the
  stock count to the filter: the value \<open>true\<close> selects exactly the variants whose stock
  is greater than zero, any other value exactly those whose stock is at most zero. On
  the product list the parameter adds an equality on the product's boolean \<open>inStock\<close>
  flag instead: \<open>true\<close> selects exactly the products whose flag is set, any other value
  exactly those whose flag is not set; the quantity in stock is not looked at.
\<close>

theorem inStock_filter:
  "(vq_inStock vq = Some s \<longrightarrow>
      vw_stock (variants_where vq) = Some (if s = ''true'' then Gt 0 else Lte 0) \<and>
      (variant_matches (variants_where vq) v \<longleftrightarrow>
         variant_matches (variants_where (vq\<lparr>vq_inStock := None\<rparr>)) v \<and>
         (if s = ''true'' then 0 < v_stock v else v_stock v \<le> 0))) \<and>
   (pq_inStock pq = Some s \<longrightarrow>
      pw_inStock (products_where parseFloat pq) = Some (s = ''true'') \<and>
      (product_matches (products_where parseFloat pq) p \<longleftrightarrow>
         product_matches (products_where parseFloat (pq\<lparr>pq_inStock := None\<rparr>)) p \<and>
         (p_inStock p \<longleftrightarrow> s = ''true'')))"
  by (auto simp: variants_where_def variant_matches_def products_where_def
      product_matches_def)

theorem inStock_filter_witness:
  "variant_matches (variants_where (variant_query_inStock ''true'')) variant0 \<and>
   \<not> variant_matches (variants_where (variant_query_inStock ''1'')) variant0 \<and>
   \<not> product_matches (products_where parseFloat0 (product_query_inStock ''true'')) product0 \<and>
   product_matches (products_where parseFloat0 (product_query_inStock ''false'')) product0"
  using inStock_filter[of "variant_query_inStock ''true''" "''true''" variant0
      "product_query_inStock ''true''" parseFloat0 product0]
    inStock_filter[of "variant_query_inStock ''1''" "''1''" variant0
      "product_query_inStock ''1''" parseFloat0 product0]
    inStock_filter[of "variant_query_inStock ''false''" "''false''" variant0
      "product_query_inStock ''false''" parseFloat0 product0]
  by (simp add: variant_query_inStock_def product_query_inStock_def variant0_def product0_def
      variants_where_def variant_matches_def products_where_def product_matches_def
      truthy_def eq_filter_def)

text \<open>
  A product with five pieces in stock whose flag is not set is not selected by
  \<open>inStock=true\<close>: the product list does not select by the stock count.
\<close>

theorem product_inStock_counterexample:
  "\<not> (product_matches (products_where parseFloat0 (product_query_inStock ''true'')) product0
        \<longleftrightarrow> 0 < p_quantityInStock product0)"
  by (simp add: product_query_inStock_def product0_def products_where_def
      product_matches_def truthy_def eq_filter_def)

section \<open>Properties of the error responses\<close>





section \<open>Properties of the collection replace on update\<close>















section \<open>Properties of the creation of styles and colors\<close>

text \<open>
  Claim C5, amended. For a request to create a style with a name and a fit type: when
  the upper-cased fit type is one of the four valid values and no stored style has the
  trimmed name, the answer is 201 and the style is stored with the upper-cased fit type;
  when the fit type is valid and a stored style has that name, the answer is 400 and
  nothing is inserted; when the upper-cased fit type is not one of the four values, the
  answer is 400 and nothing is inserted.
\<close>

theorem style_create:
  "stb_name body = Some name \<and> name \<noteq> [] \<and> stb_fitType body = Some fitType \<and> fitType \<noteq> [] \<longrightarrow>
     (toUpperCase fitType \<in> set validFitTypes \<and> trim name \<notin> s_name ` set (styles st) \<longrightarrow>
        post_style st new_id body
          = (ok_response 201
               (Some \<lparr>s_id = new_id, s_name = trim name, s_fitType = toUpperCase fitType\<rparr>)
               (Some ''Style created successfully''),
             st\<lparr>styles := styles st
                    @ [\<lparr>s_id = new_id, s_name = trim name,
                        s_fitType = toUpperCase fitType\<rparr>]\<rparr>)) \<and>
     (toUpperCase fitType \<in> set validFitTypes \<and> trim name \<in> s_name ` set (styles st) \<longrightarrow>
        post_style st new_id body = (fail_response 400 ''Style name already exists'', st)) \<and>
     (toUpperCase fitType \<notin> set validFitTypes \<longrightarrow>
        post_style st new_id body
          = (fail_response 400
               ''Invalid fit type. Must be one of: SKINNY, RELAXED, OVERSIZED, CLASSIC'', st))"
  by (auto simp: post_style_def truthy_def style_create_def Let_def route_catch_def
      unique_error_def image_iff)

lemma style_examples:
  "toUpperCase ''skinny'' = ''SKINNY''" "toUpperCase ''WIDE'' = ''WIDE''"
  "trim ''X'' = ''X''" "trim ''Y'' = ''Y''" "trim ''Slim'' = ''Slim''"
  by code_simp+

theorem style_create_witness:
  "post_style store1 ''s9'' (style_body0 ''X'' ''skinny'')
     = (ok_response 201 (Some \<lparr>s_id = ''s9'', s_name = ''X'', s_fitType = ''SKINNY''\<rparr>)
          (Some ''Style created successfully''),
        store1\<lparr>styles := styles store1
                  @ [\<lparr>s_id = ''s9'', s_name = ''X'', s_fitType = ''SKINNY''\<rparr>]\<rparr>) \<and>
   post_style store1 ''s9'' (style_body0 ''Y'' ''WIDE'')
     = (fail_response 400
          ''Invalid fit type. Must be one of: SKINNY, RELAXED, OVERSIZED, CLASSIC'', store1) \<and>
   post_style store1 ''s9'' (style_body0 ''Slim'' ''skinny'')
     = (fail_response 400 ''Style name already exists'', store1)"
  using style_create[of "style_body0 ''X'' ''skinny''" "''X''" "''skinny''" store1 "''s9''"]
    style_create[of "style_body0 ''Y'' ''WIDE''" "''Y''" "''WIDE''" store1 "''s9''"]
    style_create[of "style_body0 ''Slim'' ''skinny''" "''Slim''" "''skinny''" store1 "''s9''"]
  by (simp add: style_body0_def style_examples validFitTypes_def store1_def)

text \<open>
  A style named \<open>Slim\<close> is stored; creating another of that name with the valid fit type
  \<open>skinny\<close> is not answered with 201.
\<close>

theorem style_create_counterexample:
  "toUpperCase ''skinny'' \<in> set validFitTypes \<and>
   r_status (fst (post_style store1 ''s9'' (style_body0 ''Slim'' ''skinny''))) \<noteq> 201"
  by (simp add: style_body0_def style_examples validFitTypes_def store1_def post_style_def
      truthy_def style_create_def route_catch_def unique_error_def fail_response_def)











section \<open>Properties of the response envelopes\<close>







end
